theory Spec2Isabelle
  imports Complex_Main "HOL-Library.AList" "HOL-Library.Sublist"
begin

section \<open>stepRNA: the overhang-counting script\<close>

text \<open>
  A shallow embedding of \<^verbatim>\<open>stepRNA-script_oldV2.py\<close>. The script is one module-level
  sequence of statements: argument handling, two subprocess calls (index build and
  alignment), a loop over the alignment records that fills five counting dictionaries, and
  a report (CSV files and two terminal histograms).

  The functions the script imports from the package (\<^verbatim>\<open>stepRNA.general\<close>,
  \<^verbatim>\<open>stepRNA.processing\<close>, \<^verbatim>\<open>stepRNA.commands\<close>, \<^verbatim>\<open>stepRNA.output\<close>), from
  \<^verbatim>\<open>bin\<close> and from pysam are not part of the script; they are parameters of the
  model, collected in records of collaborators.
\<close>

subsection \<open>Python values used by the script\<close>

text \<open>Every exception the loop's \<^verbatim>\<open>except Exception\<close> catches is one value;
  \<open>ZeroDivisionError\<close> is what a division by a zero total raises in the report.\<close>

datatype error = Exception | ZeroDivisionError

text \<open>\<^verbatim>\<open>a or b\<close> on strings: the first operand when it is truthy (non-empty), else the
  second.\<close>

definition py_or :: "string \<Rightarrow> string \<Rightarrow> string" where
  "py_or a b = (if a \<noteq> [] then a else b)"

text \<open>\<^verbatim>\<open>s in t\<close> on strings: \<open>s\<close> occurs in \<open>t\<close> as a contiguous substring.\<close>

definition py_in :: "string \<Rightarrow> string \<Rightarrow> bool" where
  "py_in s t = sublist s t"

text \<open>\<^verbatim>\<open>defaultdict(lambda:0)\<close>: a dictionary in insertion order; reading a missing key
  gives 0.\<close>

type_synonym 'k table = "('k \<times> int) list"

definition dd_get :: "'k table \<Rightarrow> 'k \<Rightarrow> int" where
  "dd_get d k = (case map_of d k of None \<Rightarrow> 0 | Some c \<Rightarrow> c)"

text \<open>\<^verbatim>\<open>d[k] += 1\<close>\<close>

definition incr :: "'k \<Rightarrow> 'k table \<Rightarrow> 'k table" where
  "incr k d = AList.update k (dd_get d k + 1) d"

text \<open>\<^verbatim>\<open>d[k] = 0\<close>\<close>

definition set_zero :: "'k \<Rightarrow> 'k table \<Rightarrow> 'k table" where
  "set_zero k d = AList.update k 0 d"

definition keys :: "'k table \<Rightarrow> 'k set" where
  "keys d = fst ` set d"

subsection \<open>Alignment records and the alignment file\<close>

text \<open>The attributes of a pysam record that the script reads.
  \<open>reference_positions\<close> is \<^verbatim>\<open>line.get_reference_positions(full_length = True)\<close>: one
  entry per query base, \<open>None\<close> where the base has no reference position.\<close>

record alignment =
  cigarstring :: "string option"
  reference_positions :: "int option list"
  query_length :: int
  reference_name :: string

text \<open>\<^verbatim>\<open>pysam.AlignmentFile\<close>: the reference names of the header and the records in
  file order.\<close>

record bam =
  references :: "string list"
  records :: "alignment list"

subsection \<open>Counting overhangs (script lines 114 to 138)\<close>

text \<open>The three package functions the loop calls. Each may raise; \<open>write_to_bam\<close>
  acts on the partitioned output \<open>'o\<close>, which a call that raises is taken to leave as it
  was. The overhang functions return a length and a type label.\<close>

record 'o classifier =
  right_overhang :: "bam \<Rightarrow> alignment \<Rightarrow> int option list \<Rightarrow> error + int \<times> string"
  left_overhang :: "bam \<Rightarrow> alignment \<Rightarrow> int option list \<Rightarrow> error + int \<times> string"
  write_to_bam :: "alignment \<Rightarrow> string \<Rightarrow> string \<Rightarrow> 'o \<Rightarrow> error + 'o"

record 'o counts =
  right_dic :: "int table"
  left_dic :: "int table"
  type_dic :: "string table"
  read_len_dic :: "int table"
  refs_read_dic :: "string table"
  partitions :: 'o

text \<open>Lines 115 to 121: five empty dictionaries, then
  \<^verbatim>\<open>for name in bam_in.references: refs_read_dic[name] = 0\<close>.\<close>

definition init_counts :: "bam \<Rightarrow> 'o \<Rightarrow> 'o counts" where
  "init_counts bam_in out =
     \<lparr>right_dic = [], left_dic = [], type_dic = [], read_len_dic = [],
      refs_read_dic = foldl (\<lambda>d name. set_zero name d) [] (references bam_in),
      partitions = out\<rparr>"

text \<open>Line 125, \<^verbatim>\<open>('D' or 'I') not in line.cigarstring\<close>.\<close>

definition no_indel :: "string \<Rightarrow> bool" where
  "no_indel cigar = (\<not> py_in (py_or ''D'' ''I'') cigar)"

text \<open>Lines 131 to 135, the five increments.\<close>

definition count_record ::
  "alignment \<Rightarrow> int \<Rightarrow> string \<Rightarrow> int \<Rightarrow> string \<Rightarrow> 'o counts \<Rightarrow> 'o counts" where
  "count_record line right right_type left left_type st =
     st\<lparr>right_dic := incr right (right_dic st),
        left_dic := incr left (left_dic st),
        type_dic := incr (left_type @ ''_'' @ right_type) (type_dic st),
        read_len_dic := incr (query_length line) (read_len_dic st),
        refs_read_dic := incr (reference_name line) (refs_read_dic st)\<rparr>"

text \<open>Lines 124 to 138, the body of the loop for one record. Every exception inside the
  \<^verbatim>\<open>try\<close> block ends the iteration (\<^verbatim>\<open>continue\<close>) with the dictionaries as they are
  at that moment.\<close>

definition process_line :: "'o classifier \<Rightarrow> bam \<Rightarrow> alignment \<Rightarrow> 'o counts \<Rightarrow> 'o counts" where
  "process_line c bam_in line st =
     (case cigarstring line of
        None \<Rightarrow> st
      | Some cigar \<Rightarrow>
          if no_indel cigar then
            (let ref_pos = reference_positions line in
             case right_overhang c bam_in line ref_pos of
               Inl e \<Rightarrow> st
             | Inr (right, right_type) \<Rightarrow>
                 (case left_overhang c bam_in line ref_pos of
                    Inl e \<Rightarrow> st
                  | Inr (left, left_type) \<Rightarrow>
                      (let st' = count_record line right right_type left left_type st in
                       case write_to_bam c line left_type right_type (partitions st') of
                         Inl e \<Rightarrow> st'
                       | Inr out \<Rightarrow> st'\<lparr>partitions := out\<rparr>)))
          else st)"

text \<open>Line 123, \<^verbatim>\<open>for line in bam_in\<close>.\<close>

fun count_lines :: "'o classifier \<Rightarrow> bam \<Rightarrow> alignment list \<Rightarrow> 'o counts \<Rightarrow> 'o counts" where
  "count_lines c bam_in [] st = st"
| "count_lines c bam_in (line # lines) st =
     count_lines c bam_in lines (process_line c bam_in line st)"

definition count_overhangs :: "'o classifier \<Rightarrow> bam \<Rightarrow> 'o \<Rightarrow> 'o counts" where
  "count_overhangs c bam_in out = count_lines c bam_in (records bam_in) (init_counts bam_in out)"

text \<open>The records the loop counts: those that pass both tests on the CIGAR string and
  for which both overhang functions return. The value is what the two functions returned,
  in the order (right, right type, left, left type).\<close>

definition counted ::
  "'o classifier \<Rightarrow> bam \<Rightarrow> alignment \<Rightarrow> (int \<times> string \<times> int \<times> string) option" where
  "counted c bam_in line =
     (case cigarstring line of
        None \<Rightarrow> None
      | Some cigar \<Rightarrow>
          if no_indel cigar then
            (case right_overhang c bam_in line (reference_positions line) of
               Inl e \<Rightarrow> None
             | Inr (right, right_type) \<Rightarrow>
                 (case left_overhang c bam_in line (reference_positions line) of
                    Inl e \<Rightarrow> None
                  | Inr (left, left_type) \<Rightarrow> Some (right, right_type, left, left_type)))
          else None)"

subsection \<open>The report (script lines 140 to 174)\<close>

text \<open>The calls that write the CSV files, in the order of lines 142 to 147, with their
  arguments; \<open>sort\<close> and \<open>show\<close> are keyword arguments, \<open>None\<close> where the call does
  not pass them.\<close>

datatype csv_call =
  Make_csv "int table list" string "string list"
| Make_type_csv_str "string table" string "string list" "bool option" "bool option"
| Make_type_csv_int "int table" string "string list" "bool option" "bool option"

definition report_calls :: "string \<Rightarrow> 'o counts \<Rightarrow> csv_call list" where
  "report_calls prefix_path st =
     [Make_csv [right_dic st, left_dic st] (prefix_path @ ''_overhang.csv'')
        [''OH'', ''Left'', ''Right''],
      Make_type_csv_str (type_dic st) (prefix_path @ ''_type.csv'') [''OH_type'', ''count'']
        None None,
      Make_type_csv_int (read_len_dic st) (prefix_path @ ''_read_len.csv'')
        [''Read_length'', ''count''] (Some True) None,
      Make_type_csv_str (refs_read_dic st) (prefix_path @ ''_ref_hits.csv'')
        [''Reference'', ''count''] None (Some False)]"

text \<open>The two package functions of the report whose results the script uses.
  \<open>make_csv\<close> stands for the file it writes, as line 155 reads it back: the rows after the
  header, each with its first field and its second and third fields through \<^verbatim>\<open>int\<close>.
  \<open>print_hist\<close> gives the lines it prints, or raises.\<close>

record reporter =
  make_csv :: "int table list \<Rightarrow> string \<Rightarrow> string list \<Rightarrow> (string \<times> int \<times> int) list"
  print_hist :: "rat list \<Rightarrow> string list \<Rightarrow> error + string list"

text \<open>Lines 150 to 162: the loop over the rows. The result is
  \<open>(keys, left_dens, left_tot, right_dens, right_tot)\<close>. The densities are kept as
  rationals from the start: line 166 replaces the integers by quotients.\<close>

fun read_summary ::
  "(string \<times> int \<times> int) list \<Rightarrow> string list \<times> rat list \<times> int \<times> rat list \<times> int
   \<Rightarrow> string list \<times> rat list \<times> int \<times> rat list \<times> int" where
  "read_summary [] acc = acc"
| "read_summary ((k, l, r) # rows) (ks, left_dens, left_tot, right_dens, right_tot) =
     read_summary rows
       (ks @ [k], left_dens @ [of_int l], left_tot + l, right_dens @ [of_int r], right_tot + r)"

text \<open>Lines 165 to 167: \<^verbatim>\<open>for key in range(len(keys))\<close>, two true divisions per
  index, each raising when its total is 0. Exact arithmetic stands for the floats.\<close>

fun normalise :: "nat list \<Rightarrow> int \<Rightarrow> int \<Rightarrow> rat list \<times> rat list \<Rightarrow> error + rat list \<times> rat list" where
  "normalise [] left_tot right_tot (left_dens, right_dens) = Inr (left_dens, right_dens)"
| "normalise (key # ks) left_tot right_tot (left_dens, right_dens) =
     (if left_tot = 0 then Inl ZeroDivisionError
      else if right_tot = 0 then Inl ZeroDivisionError
      else normalise ks left_tot right_tot
             (left_dens[key := 100 * (left_dens ! key) / of_int left_tot],
              right_dens[key := 100 * (right_dens ! key) / of_int right_tot]))"

text \<open>Lines 149 to 174: what the script prints from line 170 on, or the exception that
  ends it.\<close>

definition histograms :: "reporter \<Rightarrow> (string \<times> int \<times> int) list \<Rightarrow> error + string list" where
  "histograms r rows =
     (case read_summary rows ([], [], 0, [], 0) of
        (ks, left_dens, left_tot, right_dens, right_tot) \<Rightarrow>
          (case normalise [0..<length ks] left_tot right_tot (left_dens, right_dens) of
             Inl e \<Rightarrow> Inl e
           | Inr (left_dens', right_dens') \<Rightarrow>
               (case print_hist r left_dens' ks of
                  Inl e \<Rightarrow> Inl e
                | Inr left_lines \<Rightarrow>
                    (case print_hist r right_dens' ks of
                       Inl e \<Rightarrow> Inl e
                     | Inr right_lines \<Rightarrow>
                         Inr (''Left Handside Overhang Histogram'' # left_lines @
                              ''Right Handside Overhang Histogram'' # right_lines)))))"

definition report :: "reporter \<Rightarrow> string \<Rightarrow> 'o counts \<Rightarrow> error + string list" where
  "report r prefix_path st =
     histograms r
       (make_csv r [right_dic st, left_dic st] (prefix_path @ ''_overhang.csv'')
          [''OH'', ''Left'', ''Right''])"

subsection \<open>Arguments, index build and alignment (script lines 66 to 111)\<close>

text \<open>\<^verbatim>\<open>str\<close> of an integer, as \<^verbatim>\<open>'{}'.format\<close> writes it.\<close>

definition digit :: "nat \<Rightarrow> char" where
  "digit n = ''0123456789'' ! n"

function str_nat :: "nat \<Rightarrow> string" where
  "str_nat n = (if n < 10 then [digit n] else str_nat (n div 10) @ [digit (n mod 10)])"
  by pat_completeness auto
termination
  by (relation "measure id") auto

definition str_int :: "int \<Rightarrow> string" where
  "str_int i = (if i < 0 then CHR ''-'' # str_nat (nat (- i)) else str_nat (nat i))"

text \<open>\<^verbatim>\<open>s.split()\<close>: the maximal runs of characters that are not whitespace. Of the
  code points below 256, whitespace are 9 to 13, 28 to 32, 133 and 160.\<close>

definition is_space :: "char \<Rightarrow> bool" where
  "is_space ch = (of_char ch \<in> set [9, 10, 11, 12, 13, 28, 29, 30, 31, 32, 133, 160 :: nat])"

fun split_words :: "string \<Rightarrow> string \<Rightarrow> string list" where
  "split_words word [] = (if word = [] then [] else [word])"
| "split_words word (ch # cs) =
     (if is_space ch then (if word = [] then [] else [word]) @ split_words [] cs
      else split_words (word @ [ch]) cs)"

definition py_split :: "string \<Rightarrow> string list" where
  "py_split s = split_words [] s"

text \<open>Line 56, \<^verbatim>\<open>add_argument('-m', '--min_score', default=-1, type=int)\<close>: the value of
  \<^verbatim>\<open>args.min_score\<close> for an option that is absent (\<open>None\<close>) or given with a value.\<close>

definition parse_min_score :: "int option \<Rightarrow> int" where
  "parse_min_score opt = (case opt of None \<Rightarrow> - 1 | Some m \<Rightarrow> m)"

text \<open>The parsed command line (lines 52 to 63); \<open>arg_min_score\<close> is \<open>-1\<close> when the option
  is not given.\<close>

record args =
  arg_reference :: string
  arg_reads :: string
  arg_name :: "string option"
  arg_directory :: string
  arg_min_score :: int
  arg_remove_exact :: bool
  arg_make_unique :: bool

text \<open>What lines 66 to 114 call outside the script: package functions, \<^verbatim>\<open>os.path\<close>,
  \<^verbatim>\<open>subprocess.run\<close> (its value here is the exit status of the finished process) and
  \<^verbatim>\<open>pysam.AlignmentFile\<close>.\<close>

record toolbox =
  check_dir :: "string \<Rightarrow> string"
  splitext_root :: "string \<Rightarrow> string"
  path_join :: "string \<Rightarrow> string \<Rightarrow> string"
  replace_ext :: "string \<Rightarrow> string \<Rightarrow> string"
  make_unique :: "string \<Rightarrow> string"
  mini_maxi :: "string \<Rightarrow> int \<times> int"
  run :: "string list \<Rightarrow> int"
  sam_to_bam :: "string \<Rightarrow> string"
  alignment_file :: "string \<Rightarrow> bam"

text \<open>The calls that act on files or start a process, in the order the script makes
  them.\<close>

datatype call =
  Remove_exact string string
| Make_unique string
| Mini_maxi string
| Run "string list"
| Sam_to_bam string

text \<open>The variables of the script after line 107. \<open>v_reads_85\<close> is the value line 85
  assigns to \<^verbatim>\<open>reads\<close>, \<open>v_reads\<close> the value the variable has from line 86 on;
  \<open>v_build_command\<close> is \<^verbatim>\<open>command\<close> at line 92, \<open>v_command\<close> at line 109;
  \<open>v_calls\<close> lists the external calls up to line 109.\<close>

record vars =
  v_ref :: string
  v_reads_85 :: string
  v_reads :: string
  v_prefix_path :: string
  v_ref_base :: string
  v_build_command :: "string list"
  v_minimum :: int
  v_maximum :: int
  v_min_score :: int
  v_sam_file :: string
  v_command :: "string list"
  v_calls :: "call list"

definition bowtie2_command :: "string \<Rightarrow> string \<Rightarrow> int \<Rightarrow> int \<Rightarrow> string \<Rightarrow> string list" where
  "bowtie2_command ref_base reads maximum min_score sam_file =
     [''bowtie2'', ''-x'', ref_base, ''-U'', reads, ''-f'', ''-N'', ''0'', ''-L'', ''10'',
      ''--no-1mm-upfront'', ''--nofw'', ''--local'', ''--ma'', ''3'',
      ''--mp'', str_int maximum @ '','' @ str_int maximum,
      ''--score-min'', ''L,'' @ str_int min_score @ '',0'', ''-S'', sam_file]"

definition script_setup :: "toolbox \<Rightarrow> args \<Rightarrow> vars" where
  "script_setup t a =
     (let ref = arg_reference a;
          reads_66 = arg_reads a;
          min_score_68 = arg_min_score a;
          outdir = check_dir t (arg_directory a);
          filename = (case arg_name a of None \<Rightarrow> splitext_root t reads_66 | Some n \<Rightarrow> n);
          prefix_path = path_join t outdir filename;
          reads_85 = (if arg_make_unique a then make_unique t reads_66 else reads_66);
          reads = (if arg_make_unique a then make_unique t ref else reads_85);
          ref_base = splitext_root t ref;
          build_command = py_split (''bowtie2-build '' @ ref @ '' '' @ ref_base);
          (minimum, maximum) = mini_maxi t reads;
          min_score = (if min_score_68 \<noteq> - 1 then 3 * min_score_68 else 3 * minimum);
          sam_file = replace_ext t prefix_path ''.sam'';
          command = bowtie2_command ref_base reads maximum min_score sam_file
      in \<lparr>v_ref = ref, v_reads_85 = reads_85, v_reads = reads, v_prefix_path = prefix_path,
          v_ref_base = ref_base, v_build_command = build_command,
          v_minimum = minimum, v_maximum = maximum, v_min_score = min_score,
          v_sam_file = sam_file, v_command = command,
          v_calls =
            (if arg_remove_exact a then [Remove_exact ref reads_66] else []) @
            (if arg_make_unique a then [Make_unique reads_66, Make_unique ref] else []) @
            [Run build_command, Mini_maxi reads, Run command]\<rparr>)"

subsection \<open>The whole script\<close>

text \<open>What a run leaves behind: the external calls in order, the dictionaries and the
  partitioned output after the loop, the CSV calls, and the histogram lines (or the
  exception that ended the script there).\<close>

record 'o outcome =
  external_calls :: "call list"
  final_counts :: "'o counts"
  csv_calls :: "csv_call list"
  terminal :: "error + string list"

text \<open>Lines 109 to 174 with the value of \<^verbatim>\<open>bowtie = run(command)\<close> as an argument.\<close>

definition after_alignment ::
  "toolbox \<Rightarrow> 'o classifier \<Rightarrow> reporter \<Rightarrow> 'o \<Rightarrow> vars \<Rightarrow> int \<Rightarrow> 'o outcome" where
  "after_alignment t c r out v bowtie =
     (let sorted_bam = sam_to_bam t (v_sam_file v);
          bam_in = alignment_file t sorted_bam;
          st = count_overhangs c bam_in out
      in \<lparr>external_calls = v_calls v @ [Sam_to_bam (v_sam_file v)],
          final_counts = st,
          csv_calls = report_calls (v_prefix_path v) st,
          terminal = report r (v_prefix_path v) st\<rparr>)"

definition main :: "toolbox \<Rightarrow> 'o classifier \<Rightarrow> reporter \<Rightarrow> 'o \<Rightarrow> args \<Rightarrow> 'o outcome" where
  "main t c r out a =
     (let v = script_setup t a;
          bowtie = run t (v_command v)
      in after_alignment t c r out v bowtie)"

subsection \<open>Package functions described by the specification only\<close>

text \<open>Modelled from the spec: the test for a query base without a reference position
  (the "unmapped" sentinel of the reference-position array); \<^verbatim>\<open>left_overhang\<close> and
  \<^verbatim>\<open>right_overhang\<close> of \<^verbatim>\<open>stepRNA.commands\<close>, which read the array, are missing
  from the sources.\<close>

definition unmapped :: "int option \<Rightarrow> bool" where
  "unmapped p = (p = None)"

text \<open>Modelled from the spec: the length that \<^verbatim>\<open>right_overhang\<close> (missing from the
  sources) returns. The overhang length is the count of trailing query bases with no
  corresponding reference position; on a malformed array (entirely unmapped, zero length)
  the computation fails. The type label is left out.\<close>

definition right_overhang_length :: "int option list \<Rightarrow> error + int" where
  "right_overhang_length ref_pos =
     (if list_all unmapped ref_pos then Inl Exception
      else Inr (int (length (takeWhile unmapped (rev ref_pos)))))"

text \<open>Modelled from the spec: the length that \<^verbatim>\<open>left_overhang\<close> (missing from the
  sources) returns; symmetric, from the start of the query.\<close>

definition left_overhang_length :: "int option list \<Rightarrow> error + int" where
  "left_overhang_length ref_pos =
     (if list_all unmapped ref_pos then Inl Exception
      else Inr (int (length (takeWhile unmapped ref_pos))))"

text \<open>Modelled from the spec: the matched length of the length-conservation property,
  which no function of the sources computes: the number of matched query bases, that is, of
  bases with a corresponding reference position (the scenario of the specification: a read
  of length 20 with a 3-base and a 2-base unmapped tail, rest matched, has matched length
  15).\<close>

definition matched_length :: "int option list \<Rightarrow> int" where
  "matched_length ref_pos = int (length (filter (\<lambda>p. \<not> unmapped p) ref_pos))"

text \<open>Modelled from the spec: the input contract of the classifier, a record without
  insertion, seen on the reference-position array: no base without a reference position
  lies between two bases that have one. No function of the sources tests it.\<close>

definition no_inner_gap :: "int option list \<Rightarrow> bool" where
  "no_inner_gap ref_pos =
     list_all (\<lambda>p. \<not> unmapped p) (dropWhile unmapped (rev (dropWhile unmapped ref_pos)))"

text \<open>Modelled from the spec: \<^verbatim>\<open>make_csv\<close> of \<^verbatim>\<open>stepRNA.output\<close> (missing from the
  sources) writes a header row and one row per key, with the columns OH, Left, Right. The
  script passes the right table first and the left table second, so a row is a key, its
  count in the second table (Left) and its count in the first (Right), 0 where a table lacks
  the key. With fewer than two tables a row has no third field to read back.\<close>

fun make_csv_spec :: "int table list \<Rightarrow> string \<Rightarrow> string list \<Rightarrow> (string \<times> int \<times> int) list" where
  "make_csv_spec (right_table # left_table # ts) csv_name headers =
     map (\<lambda>k. (str_int k, dd_get left_table k, dd_get right_table k))
       (remdups (map fst right_table @ map fst left_table))"
| "make_csv_spec ts csv_name headers = []"

text \<open>Modelled from the spec: \<^verbatim>\<open>print_hist\<close> of \<^verbatim>\<open>stepRNA.output\<close> (missing from
  the sources) renders a proportional bar per key, labelled with the key, and an explicit
  "no data" output for an empty table. A bar has one mark per whole percent.\<close>

definition print_hist_spec :: "rat list \<Rightarrow> string list \<Rightarrow> error + string list" where
  "print_hist_spec dens ks =
     (if ks = [] then Inr [''no data'']
      else Inr (map (\<lambda>(k, d). k @ '' '' @ replicate (nat \<lfloor>d\<rfloor>) CHR ''#'') (zip ks dens)))"

text \<open>Modelled from the spec: the reporter made of the two functions above, both missing
  from the sources.\<close>

definition spec_reporter :: reporter where
  "spec_reporter = \<lparr>make_csv = make_csv_spec, print_hist = print_hist_spec\<rparr>"

subsection \<open>Concrete inputs\<close>

text \<open>A header with two references; a read of length 20 with three unaligned bases at the
  start and two at the end; a read with one inserted base. The example classifier reports
  fixed overhangs and appends each record to a list under its two labels.\<close>

definition example_bam :: bam where
  "example_bam = \<lparr>references = [''ref1'', ''ref2''], records = []\<rparr>"

definition clipped_read :: alignment where
  "clipped_read =
     \<lparr>cigarstring = Some ''3S15M2S'',
      reference_positions =
        [None, None, None, Some 0, Some 1, Some 2, Some 3, Some 4, Some 5, Some 6, Some 7,
         Some 8, Some 9, Some 10, Some 11, Some 12, Some 13, Some 14, None, None],
      query_length = 20, reference_name = ''ref1''\<rparr>"

definition insertion_read :: alignment where
  "insertion_read =
     \<lparr>cigarstring = Some ''2M1I2M'',
      reference_positions = [Some 0, Some 1, None, Some 2, Some 3],
      query_length = 5, reference_name = ''ref1''\<rparr>"

definition example_classifier :: "(string \<times> string \<times> alignment) list classifier" where
  "example_classifier =
     \<lparr>right_overhang = (\<lambda>bam_in line ref_pos. Inr (2, ''3prime'')),
      left_overhang = (\<lambda>bam_in line ref_pos. Inr (3, ''5prime'')),
      write_to_bam = (\<lambda>line left_type right_type out. Inr (out @ [(left_type, right_type, line)]))\<rparr>"

definition failing_writer :: "(string \<times> string \<times> alignment) list classifier" where
  "failing_writer =
     example_classifier\<lparr>write_to_bam := (\<lambda>line left_type right_type out. Inl Exception)\<rparr>"

definition failing_overhang :: "(string \<times> string \<times> alignment) list classifier" where
  "failing_overhang =
     example_classifier\<lparr>left_overhang := (\<lambda>bam_in line ref_pos. Inl Exception)\<rparr>"

definition unaligned_read :: alignment where
  "unaligned_read =
     \<lparr>cigarstring = None, reference_positions = [], query_length = 4, reference_name = []\<rparr>"

definition example_file :: bam where
  "example_file =
     \<lparr>references = [''ref1'', ''ref2''], records = [clipped_read, unaligned_read]\<rparr>"

definition unaligned_file :: bam where
  "unaligned_file = \<lparr>references = [''ref1'', ''ref2''], records = [unaligned_read]\<rparr>"

text \<open>A toolbox in which the reads file and its uniquified copy hold sequences of 18 to 25
  bases and every other file sequences of 40 to 60 bases.\<close>

definition example_toolbox :: toolbox where
  "example_toolbox =
     \<lparr>check_dir = (\<lambda>d. d),
      splitext_root = takeWhile (\<lambda>ch. ch \<noteq> CHR ''.''),
      path_join = (\<lambda>d f. d @ ''/'' @ f),
      replace_ext = (\<lambda>p e. p @ e),
      make_unique = (\<lambda>p. ''unique_'' @ p),
      mini_maxi =
        (\<lambda>p. if p = ''reads.fa'' \<or> p = ''unique_reads.fa'' then (18, 25) else (40, 60)),
      run = (\<lambda>cmd. 0),
      sam_to_bam = (\<lambda>p. p @ ''.bam''),
      alignment_file = (\<lambda>p. example_file)\<rparr>"

definition example_args :: args where
  "example_args =
     \<lparr>arg_reference = ''ref.fa'', arg_reads = ''reads.fa'', arg_name = None,
      arg_directory = ''out'', arg_min_score = - 1, arg_remove_exact = False,
      arg_make_unique = False\<rparr>"

section \<open>Properties\<close>

subsection \<open>Dictionaries\<close>

lemma dd_get_incr: "dd_get (incr k d) k' = dd_get d k' + (if k' = k then 1 else 0)"
  by (simp add: dd_get_def incr_def AList.update_conv')

lemma keys_incr: "keys (incr k d) = insert k (keys d)"
  by (simp add: keys_def incr_def AList.dom_update)

lemma distinct_incr: "distinct (map fst d) \<Longrightarrow> distinct (map fst (incr k d))"
  by (simp add: incr_def AList.distinct_update)

lemma map_of_incr_Some:
  "map_of d n = Some v \<Longrightarrow> map_of (incr k d) n = Some (v + (if n = k then 1 else 0))"
  by (auto simp add: incr_def dd_get_def AList.update_conv')

lemma map_of_zeroed:
  "map_of (foldl (\<lambda>d name. set_zero name d) d0 ns) k =
     (if k \<in> set ns then Some 0 else map_of d0 k)"
  by (induction ns arbitrary: d0) (auto simp: set_zero_def AList.update_conv')

lemma distinct_zeroed:
  "distinct (map fst d0) \<Longrightarrow> distinct (map fst (foldl (\<lambda>d name. set_zero name d) d0 ns))"
  by (induction ns arbitrary: d0) (auto simp: set_zero_def AList.distinct_update)

subsection \<open>The test on the CIGAR string\<close>

lemma sublist_single: "sublist [x] ys \<longleftrightarrow> x \<in> set ys"
  by (induction ys) (auto simp: sublist_Cons_right)

text \<open>\<^verbatim>\<open>'D' or 'I'\<close> is \<^verbatim>\<open>'D'\<close>, so the test looks for the letter D only.\<close>

lemma no_indel_iff: "no_indel cigar \<longleftrightarrow> CHR ''D'' \<notin> set cigar"
  by (simp add: no_indel_def py_in_def py_or_def sublist_single)

subsection \<open>One record\<close>

lemma process_line_counted:
  "process_line c bam_in line st =
     (case counted c bam_in line of
        None \<Rightarrow> st
      | Some (right, right_type, left, left_type) \<Rightarrow>
          (let st' = count_record line right right_type left left_type st in
           case write_to_bam c line left_type right_type (partitions st') of
             Inl e \<Rightarrow> st' | Inr out \<Rightarrow> st'\<lparr>partitions := out\<rparr>))"
  by (simp add: process_line_def counted_def split: option.splits sum.splits prod.splits)

lemma process_line_right:
  "right_dic (process_line c bam_in line st) =
     (case counted c bam_in line of None \<Rightarrow> right_dic st
      | Some (right, right_type, left, left_type) \<Rightarrow> incr right (right_dic st))"
  by (simp add: process_line_counted count_record_def Let_def
      split: option.splits sum.splits prod.splits)

lemma process_line_left:
  "left_dic (process_line c bam_in line st) =
     (case counted c bam_in line of None \<Rightarrow> left_dic st
      | Some (right, right_type, left, left_type) \<Rightarrow> incr left (left_dic st))"
  by (simp add: process_line_counted count_record_def Let_def
      split: option.splits sum.splits prod.splits)

lemma process_line_type:
  "type_dic (process_line c bam_in line st) =
     (case counted c bam_in line of None \<Rightarrow> type_dic st
      | Some (right, right_type, left, left_type) \<Rightarrow>
          incr (left_type @ ''_'' @ right_type) (type_dic st))"
  by (simp add: process_line_counted count_record_def Let_def
      split: option.splits sum.splits prod.splits)

lemma process_line_read_len:
  "read_len_dic (process_line c bam_in line st) =
     (case counted c bam_in line of None \<Rightarrow> read_len_dic st
      | Some x \<Rightarrow> incr (query_length line) (read_len_dic st))"
  by (simp add: process_line_counted count_record_def Let_def
      split: option.splits sum.splits prod.splits)

lemma process_line_refs:
  "refs_read_dic (process_line c bam_in line st) =
     (case counted c bam_in line of None \<Rightarrow> refs_read_dic st
      | Some x \<Rightarrow> incr (reference_name line) (refs_read_dic st))"
  by (simp add: process_line_counted count_record_def Let_def
      split: option.splits sum.splits prod.splits)

subsection \<open>The loop\<close>

lemma keys_right_count_lines:
  "keys (right_dic (count_lines c bam_in ls st)) =
     keys (right_dic st) \<union> (\<lambda>(r, rt, l, lt). r) ` set (List.map_filter (counted c bam_in) ls)"
  by (induction ls arbitrary: st)
     (auto simp: process_line_right keys_incr List.map_filter_simps split: option.splits)

lemma keys_left_count_lines:
  "keys (left_dic (count_lines c bam_in ls st)) =
     keys (left_dic st) \<union> (\<lambda>(r, rt, l, lt). l) ` set (List.map_filter (counted c bam_in) ls)"
  by (induction ls arbitrary: st)
     (auto simp: process_line_left keys_incr List.map_filter_simps split: option.splits)

lemma keys_type_count_lines:
  "keys (type_dic (count_lines c bam_in ls st)) =
     keys (type_dic st) \<union>
     (\<lambda>(r, rt, l, lt). lt @ ''_'' @ rt) ` set (List.map_filter (counted c bam_in) ls)"
  by (induction ls arbitrary: st)
     (auto simp: process_line_type keys_incr List.map_filter_simps split: option.splits)

lemma keys_read_len_count_lines:
  "keys (read_len_dic (count_lines c bam_in ls st)) =
     keys (read_len_dic st) \<union> query_length ` {l \<in> set ls. counted c bam_in l \<noteq> None}"
  by (induction ls arbitrary: st)
     (auto simp: process_line_read_len keys_incr split: option.splits)

lemma distinct_refs_count_lines:
  "distinct (map fst (refs_read_dic st)) \<Longrightarrow>
   distinct (map fst (refs_read_dic (count_lines c bam_in ls st)))"
  by (induction ls arbitrary: st)
     (auto simp: process_line_refs distinct_incr split: option.splits)

lemma map_of_refs_count_lines:
  "map_of (refs_read_dic st) n = Some v \<Longrightarrow>
   map_of (refs_read_dic (count_lines c bam_in ls st)) n =
     Some (v + int (length (filter (\<lambda>l. counted c bam_in l \<noteq> None \<and> reference_name l = n) ls)))"
proof (induction ls arbitrary: st v)
  case Nil
  then show ?case by simp
next
  case (Cons l ls)
  show ?case
  proof (cases "counted c bam_in l")
    case None
    with Cons show ?thesis by (simp add: process_line_refs)
  next
    case (Some x)
    have "map_of (refs_read_dic (process_line c bam_in l st)) n =
            Some (v + (if n = reference_name l then 1 else 0))"
      using Some Cons.prems by (simp add: process_line_refs map_of_incr_Some)
    from Cons.IH [OF this] Some show ?thesis by (cases x) simp
  qed
qed

lemma sum_update:
  "sum_list (map snd (AList.update k v d)) = sum_list (map snd d) - dd_get d k + (v :: int)"
  by (induction d) (auto simp: dd_get_def)

lemma sum_incr: "sum_list (map snd (incr k d)) = sum_list (map snd d) + 1"
  by (simp add: incr_def sum_update)

text \<open>The counts of each overhang dictionary add up to the number of counted records.\<close>

lemma total_right_count_lines:
  "sum_list (map snd (right_dic (count_lines c bam_in ls st))) =
     sum_list (map snd (right_dic st)) + int (length (List.map_filter (counted c bam_in) ls))"
  by (induction ls arbitrary: st)
     (auto simp: process_line_right sum_incr List.map_filter_simps split: option.splits)

lemma total_left_count_lines:
  "sum_list (map snd (left_dic (count_lines c bam_in ls st))) =
     sum_list (map snd (left_dic st)) + int (length (List.map_filter (counted c bam_in) ls))"
  by (induction ls arbitrary: st)
     (auto simp: process_line_left sum_incr List.map_filter_simps split: option.splits)

lemma overhang_totals:
  "sum_list (map snd (right_dic (count_overhangs c bam_in out))) =
     int (length (List.map_filter (counted c bam_in) (records bam_in)))"
  "sum_list (map snd (left_dic (count_overhangs c bam_in out))) =
     int (length (List.map_filter (counted c bam_in) (records bam_in)))"
  by (simp_all add: count_overhangs_def total_right_count_lines total_left_count_lines
      init_counts_def)

subsection \<open>Records with an insertion\<close>

text \<open>
  Claim C1 says that a record whose CIGAR string has an insertion (I) or a deletion (D) takes
  no part in the classification. The test of line 125 only looks for the letter D
  (\<open>no_indel_iff\<close>), so a record with an insertion and no deletion is classified: on the
  read with CIGAR \<^verbatim>\<open>2M1I2M\<close> all five dictionaries are incremented and the record is
  written.
\<close>

theorem insertion_record_is_counted:
  "cigarstring insertion_read = Some ''2M1I2M'' \<and> py_in ''I'' ''2M1I2M'' \<and>
   process_line example_classifier example_bam insertion_read (init_counts example_bam []) =
     \<lparr>right_dic = [(2, 1)], left_dic = [(3, 1)], type_dic = [(''5prime_3prime'', 1)],
      read_len_dic = [(5, 1)], refs_read_dic = [(''ref1'', 1), (''ref2'', 0)],
      partitions = [(''5prime'', ''3prime'', insertion_read)]\<rparr>"
  by (simp add: process_line_def no_indel_iff py_in_def sublist_code init_counts_def
      example_bam_def insertion_read_def example_classifier_def
      count_record_def incr_def dd_get_def set_zero_def)

subsection \<open>A classified record is counted once\<close>

text \<open>
  Claim C2: when a record passes the tests on its CIGAR string, both overhang functions
  return and \<open>write_to_bam\<close> returns, then the count of exactly one key goes up by one in
  each dictionary (the right length, the left length, the key
  \<open>left_type @ ''_'' @ right_type\<close>, the query length and the reference name), every other
  count stays, and the output is what the one call of \<open>write_to_bam\<close> with the record and
  its two labels produced.
\<close>

theorem classified_record_counted_once:
  assumes "cigarstring line = Some cigar" and "no_indel cigar"
    and "right_overhang c bam_in line (reference_positions line) = Inr (right, right_type)"
    and "left_overhang c bam_in line (reference_positions line) = Inr (left, left_type)"
    and "write_to_bam c line left_type right_type (partitions st) = Inr out"
  shows "(\<forall>k. dd_get (right_dic (process_line c bam_in line st)) k =
              dd_get (right_dic st) k + (if k = right then 1 else 0)) \<and>
         (\<forall>k. dd_get (left_dic (process_line c bam_in line st)) k =
              dd_get (left_dic st) k + (if k = left then 1 else 0)) \<and>
         (\<forall>k. dd_get (type_dic (process_line c bam_in line st)) k =
              dd_get (type_dic st) k + (if k = left_type @ ''_'' @ right_type then 1 else 0)) \<and>
         (\<forall>k. dd_get (read_len_dic (process_line c bam_in line st)) k =
              dd_get (read_len_dic st) k + (if k = query_length line then 1 else 0)) \<and>
         (\<forall>k. dd_get (refs_read_dic (process_line c bam_in line st)) k =
              dd_get (refs_read_dic st) k + (if k = reference_name line then 1 else 0)) \<and>
         partitions (process_line c bam_in line st) = out"
proof -
  have c: "counted c bam_in line = Some (right, right_type, left, left_type)"
    using assms(1-4) by (simp add: counted_def)
  have p: "partitions (process_line c bam_in line st) = out"
    using c assms(5) by (simp add: process_line_counted count_record_def)
  show ?thesis
    using c p
    by (simp add: process_line_right process_line_left process_line_type process_line_read_len
        process_line_refs dd_get_incr)
qed

theorem classified_record_counted_once_witness:
  "cigarstring clipped_read = Some ''3S15M2S'' \<and> no_indel ''3S15M2S'' \<and>
   dd_get (right_dic (process_line example_classifier example_bam clipped_read
      (init_counts example_bam []))) 2 = 1 \<and>
   dd_get (refs_read_dic (process_line example_classifier example_bam clipped_read
      (init_counts example_bam []))) ''ref1'' = 1 \<and>
   dd_get (type_dic (process_line example_classifier example_bam clipped_read
      (init_counts example_bam []))) ''5prime_3prime'' = 1 \<and>
   partitions (process_line example_classifier example_bam clipped_read
      (init_counts example_bam [])) = [(''5prime'', ''3prime'', clipped_read)]"
proof -
  have 1: "cigarstring clipped_read = Some ''3S15M2S''" by (simp add: clipped_read_def)
  have 2: "no_indel ''3S15M2S''" by (simp add: no_indel_iff)
  have 3: "right_overhang example_classifier example_bam clipped_read
      (reference_positions clipped_read) = Inr (2, ''3prime'')"
    by (simp add: example_classifier_def)
  have 4: "left_overhang example_classifier example_bam clipped_read
      (reference_positions clipped_read) = Inr (3, ''5prime'')"
    by (simp add: example_classifier_def)
  have 5: "write_to_bam example_classifier clipped_read ''5prime'' ''3prime''
      (partitions (init_counts example_bam [])) = Inr [(''5prime'', ''3prime'', clipped_read)]"
    by (simp add: example_classifier_def init_counts_def)
  have 6: "dd_get (right_dic (init_counts example_bam [])) 2 = 0"
    "dd_get (refs_read_dic (init_counts example_bam [])) ''ref1'' = 0"
    "dd_get (type_dic (init_counts example_bam [])) ''5prime_3prime'' = 0"
    by (simp_all add: init_counts_def example_bam_def dd_get_def set_zero_def)
  have 7: "reference_name clipped_read = ''ref1''" by (simp add: clipped_read_def)
  show ?thesis
    using 1 2 classified_record_counted_once [OF 1 2 3 4 5]
    by (simp add: 6 7)
qed

subsection \<open>A record that raises\<close>

text \<open>
  Claim C3 says that a record during whose processing an exception is raised, in the
  overhang functions or in the partition write, leaves all dictionaries unchanged. The write
  is the last statement of the \<^verbatim>\<open>try\<close> block, after the five increments: when it
  raises, the increments of that record stay. Counterexample to C3: the writer raises on the
  clipped read, and every dictionary has been incremented.
\<close>

theorem write_exception_keeps_counts:
  "write_to_bam failing_writer clipped_read ''5prime'' ''3prime'' [] = Inl Exception \<and>
   init_counts example_bam [] =
     \<lparr>right_dic = [], left_dic = [], type_dic = [],
      read_len_dic = [], refs_read_dic = [(''ref1'', 0), (''ref2'', 0)],
      partitions = []\<rparr> \<and>
   process_line failing_writer example_bam clipped_read (init_counts example_bam []) =
     \<lparr>right_dic = [(2, 1)], left_dic = [(3, 1)], type_dic = [(''5prime_3prime'', 1)],
      read_len_dic = [(20, 1)], refs_read_dic = [(''ref1'', 1), (''ref2'', 0)],
      partitions = []\<rparr>"
  by (simp add: process_line_def no_indel_iff init_counts_def
      example_bam_def clipped_read_def example_classifier_def failing_writer_def
      count_record_def incr_def dd_get_def set_zero_def)

text \<open>
  Claim C3 as amended: when \<open>right_overhang\<close> or \<open>left_overhang\<close> raises for a record, the
  record changes nothing (no dictionary, no output) and the loop goes on with the next
  record.
\<close>

theorem classification_exception_skips_record:
  assumes "right_overhang c bam_in line (reference_positions line) = Inl e \<or>
           left_overhang c bam_in line (reference_positions line) = Inl e"
  shows "process_line c bam_in line st = st \<and>
         count_lines c bam_in (line # lines) st = count_lines c bam_in lines st"
proof -
  have "counted c bam_in line = None"
    using assms by (auto simp: counted_def split: option.splits sum.splits)
  then show ?thesis by (simp add: process_line_counted)
qed

theorem classification_exception_skips_record_witness:
  "left_overhang failing_overhang example_bam clipped_read (reference_positions clipped_read)
     = Inl Exception \<and>
   process_line failing_overhang example_bam clipped_read (init_counts example_bam []) =
     init_counts example_bam [] \<and>
   count_lines failing_overhang example_bam [clipped_read, clipped_read]
       (init_counts example_bam []) =
     count_lines failing_overhang example_bam [clipped_read] (init_counts example_bam [])"
proof -
  have 1: "left_overhang failing_overhang example_bam clipped_read
      (reference_positions clipped_read) = Inl Exception"
    by (simp add: failing_overhang_def example_classifier_def)
  show ?thesis
    using 1 classification_exception_skips_record [OF disjI2, OF 1]
    by simp
qed

subsection \<open>The reference-hit dictionary covers the header\<close>

text \<open>
  Claim C10: before the loop the reference-hit dictionary holds the count 0 for every
  reference name of the header. After the loop it still has exactly one entry for each of
  them (its keys are distinct), whose count is the number of counted records with that
  reference name, 0 when there is none; this dictionary is what line 147 hands to
  \<open>make_type_csv\<close>. The keys of the other dictionaries are exactly the values seen on
  counted records.
\<close>

theorem ref_hits_cover_header:
  "(\<forall>name \<in> set (references bam_in).
      map_of (refs_read_dic (init_counts bam_in out)) name = Some 0 \<and>
      map_of (refs_read_dic (count_overhangs c bam_in out)) name =
        Some (int (length (filter (\<lambda>l. counted c bam_in l \<noteq> None \<and> reference_name l = name)
                            (records bam_in))))) \<and>
   distinct (map fst (refs_read_dic (count_overhangs c bam_in out))) \<and>
   keys (right_dic (count_overhangs c bam_in out)) =
     (\<lambda>(r, rt, l, lt). r) ` set (List.map_filter (counted c bam_in) (records bam_in)) \<and>
   keys (left_dic (count_overhangs c bam_in out)) =
     (\<lambda>(r, rt, l, lt). l) ` set (List.map_filter (counted c bam_in) (records bam_in)) \<and>
   keys (type_dic (count_overhangs c bam_in out)) =
     (\<lambda>(r, rt, l, lt). lt @ ''_'' @ rt) ` set (List.map_filter (counted c bam_in) (records bam_in)) \<and>
   keys (read_len_dic (count_overhangs c bam_in out)) =
     query_length ` {l \<in> set (records bam_in). counted c bam_in l \<noteq> None} \<and>
   last (report_calls prefix_path (count_overhangs c bam_in out)) =
     Make_type_csv_str (refs_read_dic (count_overhangs c bam_in out))
       (prefix_path @ ''_ref_hits.csv'') [''Reference'', ''count''] None (Some False)"
proof -
  have init: "map_of (refs_read_dic (init_counts bam_in out)) name = Some 0"
    if "name \<in> set (references bam_in)" for name
    using that by (simp add: init_counts_def map_of_zeroed)
  have d0: "distinct (map fst (refs_read_dic (init_counts bam_in out)))"
    by (simp add: init_counts_def distinct_zeroed)
  have e: "right_dic (init_counts bam_in out) = []" "left_dic (init_counts bam_in out) = []"
    "type_dic (init_counts bam_in out) = []" "read_len_dic (init_counts bam_in out) = []"
    by (simp_all add: init_counts_def)
  have refs: "map_of (refs_read_dic (count_overhangs c bam_in out)) name =
      Some (int (length (filter (\<lambda>l. counted c bam_in l \<noteq> None \<and> reference_name l = name)
                            (records bam_in))))"
    if "name \<in> set (references bam_in)" for name
    using map_of_refs_count_lines [OF init [OF that], of c bam_in "records bam_in"]
    by (simp add: count_overhangs_def)
  have dist: "distinct (map fst (refs_read_dic (count_overhangs c bam_in out)))"
    unfolding count_overhangs_def by (rule distinct_refs_count_lines [OF d0])
  have ks: "keys ([] :: int table) = {}" "keys ([] :: string table) = {}"
    by (simp_all add: keys_def)
  have csv: "last (report_calls prefix_path (count_overhangs c bam_in out)) =
     Make_type_csv_str (refs_read_dic (count_overhangs c bam_in out))
       (prefix_path @ ''_ref_hits.csv'') [''Reference'', ''count''] None (Some False)"
    by (simp add: report_calls_def)
  have ks': "keys (right_dic (count_overhangs c bam_in out)) =
       (\<lambda>(r, rt, l, lt). r) ` set (List.map_filter (counted c bam_in) (records bam_in))"
    "keys (left_dic (count_overhangs c bam_in out)) =
       (\<lambda>(r, rt, l, lt). l) ` set (List.map_filter (counted c bam_in) (records bam_in))"
    "keys (type_dic (count_overhangs c bam_in out)) =
       (\<lambda>(r, rt, l, lt). lt @ ''_'' @ rt) `
         set (List.map_filter (counted c bam_in) (records bam_in))"
    "keys (read_len_dic (count_overhangs c bam_in out)) =
       query_length ` {l \<in> set (records bam_in). counted c bam_in l \<noteq> None}"
    by (simp_all add: count_overhangs_def keys_right_count_lines keys_left_count_lines
        keys_type_count_lines keys_read_len_count_lines e ks)
  show ?thesis
    using init refs dist csv ks' by simp
qed

theorem ref_hits_cover_header_witness:
  "''ref2'' \<in> set (references example_file) \<and>
   map_of (refs_read_dic (init_counts example_file ([] :: (string \<times> string \<times> alignment) list)))
     ''ref2'' = Some 0 \<and>
   map_of (refs_read_dic (count_overhangs example_classifier example_file [])) ''ref2'' = Some 0 \<and>
   map_of (refs_read_dic (count_overhangs example_classifier example_file [])) ''ref1'' = Some 1 \<and>
   keys (right_dic (count_overhangs example_classifier example_file [])) = {2}"
proof -
  have c: "counted example_classifier example_file clipped_read =
      Some (2, ''3prime'', 3, ''5prime'')"
    "counted example_classifier example_file unaligned_read = None"
    by (simp_all add: counted_def no_indel_iff example_classifier_def clipped_read_def
        unaligned_read_def)
  have r: "references example_file = [''ref1'', ''ref2'']"
    "records example_file = [clipped_read, unaligned_read]"
    "reference_name clipped_read = ''ref1''"
    by (simp_all add: example_file_def clipped_read_def)
  show ?thesis
    using ref_hits_cover_header [of example_file "[]" example_classifier "''out/reads''"]
    by (simp add: c r List.map_filter_simps)
qed

subsection \<open>No counted record, empty report\<close>

lemma count_lines_none:
  "\<forall>line \<in> set ls. counted c bam_in line = None \<Longrightarrow> count_lines c bam_in ls st = st"
  by (induction ls arbitrary: st) (simp_all add: process_line_counted)

lemma histograms_no_rows:
  "histograms r [] =
     (case print_hist r [] [] of
        Inl e \<Rightarrow> Inl e
      | Inr left_lines \<Rightarrow>
          (case print_hist r [] [] of
             Inl e \<Rightarrow> Inl e
           | Inr right_lines \<Rightarrow>
               Inr (''Left Handside Overhang Histogram'' # left_lines @
                    ''Right Handside Overhang Histogram'' # right_lines)))"
  by (simp add: histograms_def)

text \<open>
  Claim C4: when no record of the alignment file is counted, the two overhang dictionaries
  are empty, the overhang CSV has no row, the loop of lines 165 to 167 does not run (no
  division takes place) and the report ends without an exception; with the reporter of the
  specification both histograms are the "no data" output.
\<close>

theorem empty_table_report:
  assumes "\<forall>line \<in> set (records bam_in). counted c bam_in line = None"
  shows "right_dic (count_overhangs c bam_in out) = [] \<and>
         left_dic (count_overhangs c bam_in out) = [] \<and>
         report spec_reporter prefix_path (count_overhangs c bam_in out) =
           Inr [''Left Handside Overhang Histogram'', ''no data'',
                ''Right Handside Overhang Histogram'', ''no data'']"
proof -
  have st: "count_overhangs c bam_in out = init_counts bam_in out"
    unfolding count_overhangs_def by (rule count_lines_none [OF assms])
  have e: "right_dic (init_counts bam_in out) = []" "left_dic (init_counts bam_in out) = []"
    by (simp_all add: init_counts_def)
  have rows: "make_csv spec_reporter [[], []] (prefix_path @ ''_overhang.csv'')
      [''OH'', ''Left'', ''Right''] = []"
    by (simp add: spec_reporter_def)
  have h: "print_hist spec_reporter [] [] = Inr [''no data'']"
    by (simp add: spec_reporter_def print_hist_spec_def)
  show ?thesis
    by (simp add: st e report_def rows histograms_no_rows h)
qed

theorem empty_table_report_witness:
  "counted example_classifier unaligned_file unaligned_read = None \<and>
   report spec_reporter ''out/reads''
       (count_overhangs example_classifier unaligned_file []) =
     Inr [''Left Handside Overhang Histogram'', ''no data'',
          ''Right Handside Overhang Histogram'', ''no data'']"
proof -
  have 1: "counted example_classifier unaligned_file unaligned_read = None"
    by (simp add: counted_def unaligned_read_def)
  have 2: "\<forall>line \<in> set (records unaligned_file).
      counted example_classifier unaligned_file line = None"
    using 1 by (simp add: unaligned_file_def)
  show ?thesis
    using 1 empty_table_report [OF 2, of "[]" "''out/reads''"] by simp
qed

subsection \<open>Percentages\<close>

lemma read_summary_acc:
  "read_summary rows (ks, ld, lt, rd, rt) =
     (ks @ map fst rows, ld @ map (\<lambda>(k, l, r). of_int l) rows,
      lt + sum_list (map (\<lambda>(k, l, r). l) rows),
      rd @ map (\<lambda>(k, l, r). of_int r) rows,
      rt + sum_list (map (\<lambda>(k, l, r). r) rows))"
  by (induction rows "(ks, ld, lt, rd, rt)" arbitrary: ks ld lt rd rt rule: read_summary.induct)
     simp_all

lemma normalise_upt:
  "lt \<noteq> 0 \<Longrightarrow> rt \<noteq> 0 \<Longrightarrow> i \<le> length ld \<Longrightarrow> length rd = length ld \<Longrightarrow>
   normalise [i..<length ld] lt rt (ld, rd) =
     Inr (take i ld @ map (\<lambda>c. 100 * c / of_int lt) (drop i ld),
          take i rd @ map (\<lambda>c. 100 * c / of_int rt) (drop i rd))"
proof (induction "length ld - i" arbitrary: i ld rd)
  case 0
  then show ?case by simp
next
  case (Suc n)
  then have i: "i < length ld" by simp
  let ?ld = "ld[i := 100 * (ld ! i) / of_int lt]"
  let ?rd = "rd[i := 100 * (rd ! i) / of_int rt]"
  have n: "n = length ?ld - Suc i" using Suc.hyps(2) by simp
  have IH: "normalise [Suc i..<length ?ld] lt rt (?ld, ?rd) =
     Inr (take (Suc i) ?ld @ map (\<lambda>c. 100 * c / of_int lt) (drop (Suc i) ?ld),
          take (Suc i) ?rd @ map (\<lambda>c. 100 * c / of_int rt) (drop (Suc i) ?rd))"
    using Suc.hyps(1) [OF n Suc.prems(1,2)] i Suc.prems(4) by simp
  have l: "take (Suc i) ?ld @ map (\<lambda>c. 100 * c / of_int lt) (drop (Suc i) ?ld) =
      take i ld @ map (\<lambda>c. 100 * c / of_int lt) (drop i ld)"
    using i by (simp add: take_Suc_conv_app_nth Cons_nth_drop_Suc [symmetric])
  have r: "take (Suc i) ?rd @ map (\<lambda>c. 100 * c / of_int rt) (drop (Suc i) ?rd) =
      take i rd @ map (\<lambda>c. 100 * c / of_int rt) (drop i rd)"
    using i Suc.prems(4) by (simp add: take_Suc_conv_app_nth Cons_nth_drop_Suc [symmetric])
  have "normalise [i..<length ld] lt rt (ld, rd) = normalise [Suc i..<length ?ld] lt rt (?ld, ?rd)"
    using i Suc.prems(1,2) by (simp add: upt_conv_Cons)
  with IH l r show ?case by simp
qed

lemma sum_percent:
  "sum_list (map (\<lambda>x. 100 * of_int (f x) / (of_int t :: rat)) xs) =
     100 * of_int (sum_list (map f xs)) / of_int t"
  by (induction xs) (simp_all add: add_divide_distrib distrib_left)

text \<open>A row with two zero counts makes line 166 divide by zero.\<close>

lemma zero_total_raises: "histograms r [(''0'', 0, 0)] = Inl ZeroDivisionError"
  by (simp add: histograms_def)

text \<open>
  Claim C5: when the totals of the two count columns are not 0 (the total of an overhang
  dictionary is the number of counted records, \<open>overhang_totals\<close>, so it is not 0 as
  soon as the dictionary has an entry), the loop of lines 165 to 167 ends without an
  exception, replaces every count \<open>c\<close> by \<open>100 * c / total\<close>, the total being the sum of
  the counts of the column, and the percentages of each column sum to 100 in exact
  arithmetic; these percentages are what \<open>print_hist\<close> receives.
\<close>

theorem histogram_percentages:
  assumes "left_tot = sum_list (map (\<lambda>(k, l, r). l) rows)"
    and "right_tot = sum_list (map (\<lambda>(k, l, r). r) rows)"
    and "left_tot \<noteq> 0" and "right_tot \<noteq> 0"
  shows "read_summary rows ([], [], 0, [], 0) =
           (map fst rows, map (\<lambda>(k, l, r). of_int l) rows, left_tot,
            map (\<lambda>(k, l, r). of_int r) rows, right_tot) \<and>
         normalise [0..<length rows] left_tot right_tot
             (map (\<lambda>(k, l, r). of_int l) rows, map (\<lambda>(k, l, r). of_int r) rows) =
           Inr (map (\<lambda>(k, l, r). 100 * of_int l / of_int left_tot) rows,
                map (\<lambda>(k, l, r). 100 * of_int r / of_int right_tot) rows) \<and>
         sum_list (map (\<lambda>(k, l, r). 100 * of_int l / of_int left_tot) rows) = (100 :: rat) \<and>
         sum_list (map (\<lambda>(k, l, r). 100 * of_int r / of_int right_tot) rows) = (100 :: rat) \<and>
         histograms r rows =
           (case print_hist r (map (\<lambda>(k, l, r). 100 * of_int l / of_int left_tot) rows)
                   (map fst rows) of
              Inl e \<Rightarrow> Inl e
            | Inr left_lines \<Rightarrow>
                (case print_hist r (map (\<lambda>(k, l, r). 100 * of_int r / of_int right_tot) rows)
                        (map fst rows) of
                   Inl e \<Rightarrow> Inl e
                 | Inr right_lines \<Rightarrow>
                     Inr (''Left Handside Overhang Histogram'' # left_lines @
                          ''Right Handside Overhang Histogram'' # right_lines)))"
proof -
  have 1: "read_summary rows ([], [], 0, [], 0) =
           (map fst rows, map (\<lambda>(k, l, r). of_int l) rows, left_tot,
            map (\<lambda>(k, l, r). of_int r) rows, right_tot)"
    by (simp add: read_summary_acc assms(1,2))
  have 2: "normalise [0..<length rows] left_tot right_tot
             (map (\<lambda>(k, l, r). of_int l) rows, map (\<lambda>(k, l, r). of_int r) rows) =
           Inr (map (\<lambda>(k, l, r). 100 * of_int l / of_int left_tot) rows,
                map (\<lambda>(k, l, r). 100 * of_int r / of_int right_tot) rows)"
    using normalise_upt [OF assms(3,4), of 0 "map (\<lambda>(k, l, r). of_int l) rows"
        "map (\<lambda>(k, l, r). of_int r) rows"]
    by (simp add: comp_def case_prod_unfold)
  have 3: "sum_list (map (\<lambda>(k, l, r). 100 * of_int l / of_int left_tot) rows) = (100 :: rat)"
    using sum_percent [of "\<lambda>(k, l, r). l" left_tot rows] assms(1,3)
    by (simp add: case_prod_unfold)
  have 4: "sum_list (map (\<lambda>(k, l, r). 100 * of_int r / of_int right_tot) rows) = (100 :: rat)"
    using sum_percent [of "\<lambda>(k, l, r). r" right_tot rows] assms(2,4)
    by (simp add: case_prod_unfold)
  have 5: "histograms r rows =
           (case print_hist r (map (\<lambda>(k, l, r). 100 * of_int l / of_int left_tot) rows)
                   (map fst rows) of
              Inl e \<Rightarrow> Inl e
            | Inr left_lines \<Rightarrow>
                (case print_hist r (map (\<lambda>(k, l, r). 100 * of_int r / of_int right_tot) rows)
                        (map fst rows) of
                   Inl e \<Rightarrow> Inl e
                 | Inr right_lines \<Rightarrow>
                     Inr (''Left Handside Overhang Histogram'' # left_lines @
                          ''Right Handside Overhang Histogram'' # right_lines)))"
    by (simp add: histograms_def 1 2)
  from 1 2 3 4 5 show ?thesis by blast
qed

theorem histogram_percentages_witness:
  "(4 :: int) \<noteq> 0 \<and>
   normalise [0..<length [(''0'', 3 :: int, 1 :: int), (''2'', 1, 3)]] 4 4 ([3, 1], [1, 3]) =
     Inr ([75, 25], [25, 75]) \<and>
   sum_list [75, 25 :: rat] = 100"
proof -
  have a: "(4 :: int) = sum_list (map (\<lambda>(k, l, r). l) [(''0'', 3 :: int, 1 :: int), (''2'', 1, 3)])"
    "(4 :: int) = sum_list (map (\<lambda>(k, l, r). r) [(''0'', 3 :: int, 1 :: int), (''2'', 1, 3)])"
    by simp_all
  have n: "(4 :: int) \<noteq> 0" by simp
  show ?thesis
    using histogram_percentages [OF a n n] by simp
qed

subsection \<open>Length conservation\<close>

lemma split_overhangs:
  assumes "\<not> list_all P xs"
  shows "xs = takeWhile P xs @ rev (dropWhile P (rev (dropWhile P xs))) @ rev (takeWhile P (rev xs))"
proof -
  let ?ys = "dropWhile P xs"
  have ne: "?ys \<noteq> []" using assms by (simp add: dropWhile_eq_Nil_conv list_all_iff)
  then have "\<not> P (hd ?ys)" by (rule hd_dropWhile)
  moreover have "hd ?ys \<in> set (rev ?ys)" using ne by simp
  ultimately have tw: "takeWhile P (rev ?ys @ rev (takeWhile P xs)) = takeWhile P (rev ?ys)"
    by (intro takeWhile_append1) auto
  have "rev xs = rev ?ys @ rev (takeWhile P xs)"
    by (metis rev_append takeWhile_dropWhile_id)
  with tw have t: "takeWhile P (rev xs) = takeWhile P (rev ?ys)" by simp
  have "?ys = rev (takeWhile P (rev ?ys) @ dropWhile P (rev ?ys))" by simp
  then have "?ys = rev (dropWhile P (rev ?ys)) @ rev (takeWhile P (rev ?ys))"
    by (simp only: rev_append)
  with t have "?ys = rev (dropWhile P (rev ?ys)) @ rev (takeWhile P (rev xs))" by simp
  then have "takeWhile P xs @ ?ys =
      takeWhile P xs @ rev (dropWhile P (rev ?ys)) @ rev (takeWhile P (rev xs))"
    by simp
  then show ?thesis by simp
qed

lemma filter_takeWhile_not: "filter (\<lambda>x. \<not> P x) (takeWhile P xs) = []"
  by (induction xs) auto

text \<open>For a record without an inner gap, the input the specification gives the classifier,
  the three lengths add up to the query length.\<close>

lemma length_conservation_no_inner_gap:
  assumes "query_length line = int (length (reference_positions line))"
    and "no_inner_gap (reference_positions line)"
    and "left_overhang_length (reference_positions line) = Inr l"
    and "right_overhang_length (reference_positions line) = Inr r"
  shows "0 \<le> l \<and> 0 \<le> r \<and>
         l + r + matched_length (reference_positions line) = query_length line"
proof -
  define xs where "xs = reference_positions line"
  define lead where "lead = takeWhile unmapped xs"
  define mid where "mid = rev (dropWhile unmapped (rev (dropWhile unmapped xs)))"
  define trail where "trail = rev (takeWhile unmapped (rev xs))"
  have n: "\<not> list_all unmapped xs"
    using assms(3) unfolding xs_def by (auto simp: left_overhang_length_def split: if_splits)
  have l: "l = int (length lead)"
    using assms(3) n unfolding xs_def lead_def by (simp add: left_overhang_length_def)
  have r: "r = int (length trail)"
    using assms(4) n unfolding xs_def trail_def by (simp add: right_overhang_length_def)
  have s: "xs = lead @ mid @ trail"
    unfolding lead_def mid_def trail_def by (rule split_overhangs [OF n])
  have len: "length xs = length lead + length mid + length trail"
    unfolding s by simp
  have f1: "filter (\<lambda>p. \<not> unmapped p) lead = []"
    unfolding lead_def by (rule filter_takeWhile_not)
  have "filter (\<lambda>p. \<not> unmapped p) (takeWhile unmapped (rev xs)) = []"
    by (rule filter_takeWhile_not)
  then have f3: "filter (\<lambda>p. \<not> unmapped p) trail = []"
    unfolding trail_def by (simp only: rev_filter [symmetric] rev.simps)
  have "list_all (\<lambda>p. \<not> unmapped p) (rev mid)"
    using assms(2) unfolding no_inner_gap_def xs_def mid_def by (simp only: rev_rev_ident)
  then have "\<forall>p \<in> set mid. \<not> unmapped p"
    by (simp only: list_all_iff set_rev)
  then have f2: "filter (\<lambda>p. \<not> unmapped p) mid = mid"
    by (simp only: filter_id_conv)
  have "filter (\<lambda>p. \<not> unmapped p) xs = mid"
    unfolding s by (simp only: filter_append f1 f2 f3 append_Nil append_Nil2)
  then have m: "matched_length (reference_positions line) = int (length mid)"
    unfolding xs_def by (simp only: matched_length_def)
  have q: "query_length line = int (length lead) + int (length mid) + int (length trail)"
    using assms(1) len unfolding xs_def by linarith
  show ?thesis
    unfolding l r m q by simp
qed

text \<open>The scenario of the specification: a read of length 20 with a 3-base unmapped tail
  at the start and a 2-base one at the end.\<close>

lemma clipped_read_lengths:
  "no_inner_gap (reference_positions clipped_read) \<and>
   left_overhang_length (reference_positions clipped_read) = Inr 3 \<and>
   right_overhang_length (reference_positions clipped_read) = Inr 2 \<and>
   matched_length (reference_positions clipped_read) = 15 \<and>
   query_length clipped_read = 20"
  by (simp add: clipped_read_def left_overhang_length_def right_overhang_length_def
      matched_length_def no_inner_gap_def unmapped_def)


subsection \<open>The command line of the aligner\<close>

lemma script_setup_fields:
  "v_ref (script_setup t a) = arg_reference a"
  "v_reads_85 (script_setup t a) =
     (if arg_make_unique a then make_unique t (arg_reads a) else arg_reads a)"
  "v_reads (script_setup t a) =
     (if arg_make_unique a then make_unique t (arg_reference a) else arg_reads a)"
  "v_ref_base (script_setup t a) = splitext_root t (arg_reference a)"
  "v_minimum (script_setup t a) = fst (mini_maxi t (v_reads (script_setup t a)))"
  "v_maximum (script_setup t a) = snd (mini_maxi t (v_reads (script_setup t a)))"
  "v_min_score (script_setup t a) =
     (if arg_min_score a \<noteq> - 1 then 3 * arg_min_score a
      else 3 * v_minimum (script_setup t a))"
  "v_command (script_setup t a) =
     bowtie2_command (v_ref_base (script_setup t a)) (v_reads (script_setup t a))
       (v_maximum (script_setup t a)) (v_min_score (script_setup t a))
       (v_sam_file (script_setup t a))"
  "v_build_command (script_setup t a) =
     py_split (''bowtie2-build '' @ arg_reference a @ '' '' @ splitext_root t (arg_reference a))"
  "v_calls (script_setup t a) =
     (if arg_remove_exact a then [Remove_exact (arg_reference a) (arg_reads a)] else []) @
     (if arg_make_unique a then [Make_unique (arg_reads a), Make_unique (arg_reference a)]
      else []) @
     [Run (v_build_command (script_setup t a)), Mini_maxi (v_reads (script_setup t a)),
      Run (v_command (script_setup t a))]"
  by (simp_all add: script_setup_def Let_def split: prod.splits)

text \<open>
  Claim C7 says that the mismatch penalty is the maximum read length and the minimum score
  3 times the minimum read length, or 3 times the value the user supplies. Counterexample
  to C7, at two inputs. With the make-unique flag, reads of 18 to 25 bases and a reference
  of 40 to 60 bases, the command has \<^verbatim>\<open>--mp 60,60\<close> and \<^verbatim>\<open>--score-min L,120,0\<close>:
  the lengths are those of the uniquified reference file. With the option
  \<^verbatim>\<open>-m -1\<close> the command has \<^verbatim>\<open>--score-min L,54,0\<close>, 3 times the minimum, and not
  \<^verbatim>\<open>L,-3,0\<close>.
\<close>

theorem penalty_from_reference_and_sentinel:
  "arg_make_unique (example_args\<lparr>arg_make_unique := True\<rparr>) \<and>
   mini_maxi example_toolbox ''reads.fa'' = (18, 25) \<and>
   mini_maxi example_toolbox ''unique_reads.fa'' = (18, 25) \<and>
   v_command (script_setup example_toolbox (example_args\<lparr>arg_make_unique := True\<rparr>)) =
     [''bowtie2'', ''-x'', ''ref'', ''-U'', ''unique_ref.fa'',
      ''-f'', ''-N'', ''0'', ''-L'', ''10'', ''--no-1mm-upfront'', ''--nofw'', ''--local'',
      ''--ma'', ''3'', ''--mp'', ''60,60'', ''--score-min'', ''L,120,0'',
      ''-S'', ''out/reads.sam''] \<and>
   parse_min_score (Some (- 1)) = - 1 \<and>
   str_int (3 * - 1) = ''-3'' \<and>
   v_command (script_setup example_toolbox
       (example_args\<lparr>arg_min_score := parse_min_score (Some (- 1))\<rparr>)) =
     [''bowtie2'', ''-x'', ''ref'', ''-U'', ''reads.fa'',
      ''-f'', ''-N'', ''0'', ''-L'', ''10'', ''--no-1mm-upfront'', ''--nofw'', ''--local'',
      ''--ma'', ''3'', ''--mp'', ''25,25'', ''--score-min'', ''L,54,0'',
      ''-S'', ''out/reads.sam'']"
  by (simp add: script_setup_def Let_def bowtie2_command_def example_toolbox_def
      example_args_def parse_min_score_def str_int_def digit_def)

text \<open>
  Claim C7 as amended: the command of line 109 is \<^verbatim>\<open>bowtie2\<close> with seed length 10
  (\<^verbatim>\<open>-L 10\<close>), local mode (\<^verbatim>\<open>--local\<close>), reverse strand only (\<^verbatim>\<open>--nofw\<close>), match
  bonus 3 (\<^verbatim>\<open>--ma 3\<close>), mismatch penalty \<^verbatim>\<open>maximum,maximum\<close> and minimum score
  \<^verbatim>\<open>L,min_score,0\<close>, where \<open>(minimum, maximum)\<close> is what \<open>mini_maxi\<close> returns for the
  file given to the aligner as reads (\<^verbatim>\<open>-U\<close>), and \<open>min_score\<close> is 3 times the minimum
  when the min-score option is absent or given as \<open>-1\<close>, and 3 times the given value
  otherwise. The file given as reads is the reads file when the make-unique flag is off.
  The command is run after the index build and before the conversion to BAM.
\<close>

theorem alignment_command:
  assumes "arg_min_score a = parse_min_score opt"
  shows "v_command (script_setup t a) =
     [''bowtie2'', ''-x'', v_ref_base (script_setup t a), ''-U'', v_reads (script_setup t a),
      ''-f'', ''-N'', ''0'', ''-L'', ''10'', ''--no-1mm-upfront'', ''--nofw'', ''--local'',
      ''--ma'', ''3'',
      ''--mp'', str_int (v_maximum (script_setup t a)) @ '','' @
                str_int (v_maximum (script_setup t a)),
      ''--score-min'', ''L,'' @ str_int (v_min_score (script_setup t a)) @ '',0'',
      ''-S'', v_sam_file (script_setup t a)] \<and>
   (v_minimum (script_setup t a), v_maximum (script_setup t a)) =
     mini_maxi t (v_reads (script_setup t a)) \<and>
   v_min_score (script_setup t a) =
     (case opt of
        None \<Rightarrow> 3 * v_minimum (script_setup t a)
      | Some m \<Rightarrow> if m = - 1 then 3 * v_minimum (script_setup t a) else 3 * m) \<and>
   (\<not> arg_make_unique a \<longrightarrow> v_reads (script_setup t a) = arg_reads a) \<and>
   external_calls (main t c r out a) =
     (if arg_remove_exact a then [Remove_exact (arg_reference a) (arg_reads a)] else []) @
     (if arg_make_unique a then [Make_unique (arg_reads a), Make_unique (arg_reference a)]
      else []) @
     [Run (v_build_command (script_setup t a)), Mini_maxi (v_reads (script_setup t a)),
      Run (v_command (script_setup t a)), Sam_to_bam (v_sam_file (script_setup t a))]"
  using assms
  by (simp add: script_setup_fields bowtie2_command_def main_def after_alignment_def Let_def
      parse_min_score_def split: option.splits)

theorem alignment_command_witness:
  "arg_min_score (example_args\<lparr>arg_min_score := 20\<rparr>) = parse_min_score (Some 20) \<and>
   \<not> arg_make_unique (example_args\<lparr>arg_min_score := 20\<rparr>) \<and>
   mini_maxi example_toolbox ''reads.fa'' = (18, 25) \<and>
   v_command (script_setup example_toolbox (example_args\<lparr>arg_min_score := 20\<rparr>)) =
     [''bowtie2'', ''-x'', ''ref'', ''-U'', ''reads.fa'',
      ''-f'', ''-N'', ''0'', ''-L'', ''10'', ''--no-1mm-upfront'', ''--nofw'', ''--local'',
      ''--ma'', ''3'', ''--mp'', ''25,25'', ''--score-min'', ''L,60,0'',
      ''-S'', ''out/reads.sam''] \<and>
   arg_min_score example_args = parse_min_score None \<and>
   v_min_score (script_setup example_toolbox example_args) = 54"
proof -
  let ?a = "example_args\<lparr>arg_min_score := 20\<rparr>"
  have 0: "arg_min_score ?a = parse_min_score (Some 20)"
    "arg_min_score example_args = parse_min_score None"
    by (simp_all add: parse_min_score_def example_args_def)
  have 1: "\<not> arg_make_unique ?a" "arg_reads ?a = ''reads.fa''"
    "\<not> arg_make_unique example_args" "arg_reads example_args = ''reads.fa''"
    by (simp_all add: example_args_def)
  have 2: "mini_maxi example_toolbox ''reads.fa'' = (18, 25)"
    by (simp add: example_toolbox_def)
  have 3: "v_ref_base (script_setup example_toolbox ?a) = ''ref''"
    "v_sam_file (script_setup example_toolbox ?a) = ''out/reads.sam''"
    by (simp_all add: script_setup_def Let_def example_toolbox_def example_args_def)
  have 4: "str_int 25 = ''25''" "str_int 60 = ''60''"
    by (simp_all add: str_int_def digit_def)
  note t = alignment_command [OF 0(1), of example_toolbox example_classifier
      "\<lparr>make_csv = (\<lambda>tables csv_name headers. []), print_hist = (\<lambda>dens ks. Inr [])\<rparr>" "[]"]
  note u = alignment_command [OF 0(2), of example_toolbox example_classifier
      "\<lparr>make_csv = (\<lambda>tables csv_name headers. []), print_hist = (\<lambda>dens ks. Inr [])\<rparr>" "[]"]
  from t 1 have r: "v_reads (script_setup example_toolbox ?a) = ''reads.fa''"
    by simp
  from t r 2 have m: "v_maximum (script_setup example_toolbox ?a) = 25"
    by simp
  from t have s: "v_min_score (script_setup example_toolbox ?a) = 60"
    by simp
  from t have c: "v_command (script_setup example_toolbox ?a) =
     [''bowtie2'', ''-x'', ''ref'', ''-U'', ''reads.fa'',
      ''-f'', ''-N'', ''0'', ''-L'', ''10'', ''--no-1mm-upfront'', ''--nofw'', ''--local'',
      ''--ma'', ''3'', ''--mp'', ''25,25'', ''--score-min'', ''L,60,0'',
      ''-S'', ''out/reads.sam'']"
    by (simp add: r m s 3 4)
  from u 1 have r': "v_reads (script_setup example_toolbox example_args) = ''reads.fa''"
    by simp
  from u r' 2 have m': "v_minimum (script_setup example_toolbox example_args) = 18"
    by simp
  from u m' have s': "v_min_score (script_setup example_toolbox example_args) = 54"
    by simp
  from 0 1 2 c s' show ?thesis by simp
qed

subsection \<open>The exit status of the aligner\<close>

lemma script_setup_run: "script_setup (t\<lparr>run := f\<rparr>) a = script_setup t a"
  by (simp add: script_setup_def Let_def cong: option.case_cong prod.case_cong if_cong)

text \<open>
  Claim C8: everything after line 109 is the same whatever value \<^verbatim>\<open>run(command)\<close>
  returned, and two runs that differ only in what \<^verbatim>\<open>run\<close> returns have the same
  outcome: external calls, dictionaries, partitioned output, CSV calls and histograms.
\<close>

theorem exit_status_ignored:
  "after_alignment t c r out v status1 = after_alignment t c r out v status2 \<and>
   main (t\<lparr>run := run1\<rparr>) c r out a = main (t\<lparr>run := run2\<rparr>) c r out a"
  by (simp add: after_alignment_def main_def script_setup_run Let_def)

subsection \<open>The make-unique flag\<close>

text \<open>
  Claim C9: with the make-unique flag, line 85 assigns the uniquified reads file to
  \<^verbatim>\<open>reads\<close> and line 86 overwrites it with the uniquified reference file, while
  \<^verbatim>\<open>ref\<close> stays the reference as given. The minimum and maximum lengths are those of
  the uniquified reference file, and it is the \<^verbatim>\<open>-U\<close> argument of the aligner.
\<close>

theorem make_unique_overwrites_reads:
  assumes "arg_make_unique a"
  shows "v_reads_85 (script_setup t a) = make_unique t (arg_reads a) \<and>
         v_reads (script_setup t a) = make_unique t (arg_reference a) \<and>
         v_ref (script_setup t a) = arg_reference a \<and>
         (v_minimum (script_setup t a), v_maximum (script_setup t a)) =
           mini_maxi t (make_unique t (arg_reference a)) \<and>
         take 5 (v_command (script_setup t a)) =
           [''bowtie2'', ''-x'', splitext_root t (arg_reference a), ''-U'',
            make_unique t (arg_reference a)] \<and>
         v_calls (script_setup t a) =
           (if arg_remove_exact a then [Remove_exact (arg_reference a) (arg_reads a)] else []) @
           [Make_unique (arg_reads a), Make_unique (arg_reference a),
            Run (v_build_command (script_setup t a)),
            Mini_maxi (make_unique t (arg_reference a)),
            Run (v_command (script_setup t a))]"
  using assms by (simp add: script_setup_fields bowtie2_command_def)

theorem make_unique_overwrites_reads_witness:
  "arg_make_unique (example_args\<lparr>arg_make_unique := True\<rparr>) \<and>
   v_reads_85 (script_setup example_toolbox (example_args\<lparr>arg_make_unique := True\<rparr>)) =
     ''unique_reads.fa'' \<and>
   v_reads (script_setup example_toolbox (example_args\<lparr>arg_make_unique := True\<rparr>)) =
     ''unique_ref.fa'' \<and>
   v_maximum (script_setup example_toolbox (example_args\<lparr>arg_make_unique := True\<rparr>)) = 60 \<and>
   take 5 (v_command (script_setup example_toolbox (example_args\<lparr>arg_make_unique := True\<rparr>))) =
     [''bowtie2'', ''-x'', ''ref'', ''-U'', ''unique_ref.fa'']"
proof -
  have 1: "arg_make_unique (example_args\<lparr>arg_make_unique := True\<rparr>)" by simp
  show ?thesis
    using make_unique_overwrites_reads [OF 1, of example_toolbox]
    by (simp add: example_toolbox_def example_args_def)
qed

end
